theory Spec2Isabelle
  imports Main "HOL-Library.Sublist"
begin

section \<open>Time utilities (frontend/src/utils/timeUtils.ts)\<close>

text \<open>
  The two functions convert between a number of seconds and a timestamp string
  \<^verbatim>\<open>m:ss\<close>. A JavaScript number that holds a non-negative integer is modelled as a
  \<^typ>\<open>nat\<close>: \<^verbatim>\<open>Math.floor(seconds / 60)\<close> is \<open>seconds div 60\<close>, \<^verbatim>\<open>seconds % 60\<close> is
  \<open>seconds mod 60\<close>, and the conversion of such a number to a string is its decimal
  numeral. The double-precision arithmetic of JavaScript agrees with this reading on the
  safe integers (below \<open>2^53\<close>); larger values are outside what \<^typ>\<open>nat\<close> describes.
  \<^verbatim>\<open>NaN\<close>, the result of \<^verbatim>\<open>parseInt\<close> on a string without a leading digit, is \<open>None\<close>.
\<close>

definition is_digit :: "char \<Rightarrow> bool" where
  "is_digit c = (48 \<le> (of_char c :: nat) \<and> (of_char c :: nat) \<le> 57)"

definition digit_char :: "nat \<Rightarrow> char" where
  "digit_char d = char_of (48 + d)"

definition digit_val :: "char \<Rightarrow> nat" where
  "digit_val c = of_char c - 48"

text \<open>\<^verbatim>\<open>Number.prototype.toString()\<close> on a non-negative integer: the decimal digits.\<close>

function toString :: "nat \<Rightarrow> string" where
  "toString n = (if n < 10 then [digit_char n] else toString (n div 10) @ [digit_char (n mod 10)])"
  by pat_completeness auto
termination
  by (relation "measure id") auto

declare toString.simps [simp del]

text \<open>\<^verbatim>\<open>String.prototype.padStart(targetLength, padString)\<close> with a one-character pad.\<close>

definition padStart :: "nat \<Rightarrow> char \<Rightarrow> string \<Rightarrow> string" where
  "padStart targetLength pad s = replicate (targetLength - length s) pad @ s"

text \<open>
  \<^verbatim>\<open>parseInt(s, 10)\<close> on the strings the regular expression hands over: the value of the
  leading run of decimal digits, \<^verbatim>\<open>NaN\<close> when there is none. (Leading white space and a
  sign, which \<^verbatim>\<open>parseInt\<close> also accepts, cannot occur in a group matched by \<^verbatim>\<open>\d\<close>.)
\<close>

definition parseInt :: "string \<Rightarrow> nat option" where
  "parseInt s =
     (let ds = takeWhile is_digit s
      in if ds = [] then None else Some (foldl (\<lambda>a c. 10 * a + digit_val c) 0 ds))"

text \<open>
  \<^verbatim>\<open>timestamp.match(/^(\d+):(\d{2})$/)\<close>: the whole string is a non-empty run of digits,
  a colon and exactly two digits. Since a colon is not a digit, the first group is the
  maximal run of leading digits. The result holds the two groups.
\<close>

definition match_timestamp :: "string \<Rightarrow> (string \<times> string) option" where
  "match_timestamp timestamp =
     (let g1 = takeWhile is_digit timestamp
      in case dropWhile is_digit timestamp of
           [c, d1, d2] \<Rightarrow>
             if g1 \<noteq> [] \<and> c = CHR '':'' \<and> is_digit d1 \<and> is_digit d2
             then Some (g1, [d1, d2]) else None
         | _ \<Rightarrow> None)"

text \<open>
  \<^verbatim>\<open>timestampToSeconds\<close>: without a match it warns on the console and returns 0;
  otherwise \<^verbatim>\<open>minutes * 60 + seconds\<close> of the two parsed groups.
\<close>

definition timestampToSeconds :: "string \<Rightarrow> nat option" where
  "timestampToSeconds timestamp =
     (case match_timestamp timestamp of
        None \<Rightarrow> Some 0
      | Some (g1, g2) \<Rightarrow>
          (case (parseInt g1, parseInt g2) of
             (Some minutes, Some seconds) \<Rightarrow> Some (minutes * 60 + seconds)
           | _ \<Rightarrow> None))"

definition secondsToTimestamp :: "nat \<Rightarrow> string" where
  "secondsToTimestamp seconds =
     (let minutes = seconds div 60;
          remainingSeconds = seconds mod 60
      in toString minutes @ '':'' @ padStart 2 (CHR ''0'') (toString remainingSeconds))"

section \<open>Prompt generator (backend/app/core/prompts.py as the reports quote it)\<close>

text \<open>
  Python strings are modelled as \<^typ>\<open>string\<close>; text beyond ASCII stands for its UTF-8
  bytes, among which the ASCII characters the code looks at (braces, field names) keep
  their meaning. An argument that may be \<^verbatim>\<open>None\<close> is an option. A raised exception is
  the \<open>Inl\<close> of a sum.
\<close>

datatype py_error = KeyError string | ValueError | IndexError | Unsupported

abbreviation nl :: char where
  "nl \<equiv> CHR 0x0A"

text \<open>
  \<^verbatim>\<open>template.format(role=role, transcript=transcript)\<close>. The format string is read
  left to right: \<^verbatim>\<open>{{\<close> and \<^verbatim>\<open>}}\<close> stand for one brace, a single \<^verbatim>\<open>}\<close> or an unclosed
  \<^verbatim>\<open>{\<close> raises \<^verbatim>\<open>ValueError\<close>, and \<^verbatim>\<open>{name}\<close> is replaced by the keyword argument of
  that name. The inserted value is copied as it is and never read again as a format
  string. An empty or numeric field asks for a positional argument, of which there is
  none (\<^verbatim>\<open>IndexError\<close>); any other plain name is a \<^verbatim>\<open>KeyError\<close>. Fields with a
  conversion, a format specification, an attribute or an index (\<^verbatim>\<open>!\<close>, \<^verbatim>\<open>:\<close>, \<^verbatim>\<open>.\<close>,
  \<^verbatim>\<open>[\<close>) are not modelled and give \<open>Unsupported\<close>.
\<close>

definition field_value :: "string \<Rightarrow> string \<Rightarrow> string \<Rightarrow> py_error + string" where
  "field_value role transcript name =
     (if name = ''role'' then Inr role
      else if name = ''transcript'' then Inr transcript
      else if list_ex (\<lambda>c. List.member ''!:.['' c) name then Inl Unsupported
      else if List.member name (CHR ''{'') then Inl ValueError
      else if list_all is_digit name then Inl IndexError
      else Inl (KeyError name))"

definition emit :: "string \<Rightarrow> py_error + string \<Rightarrow> py_error + string" where
  "emit s r = (case r of Inl e \<Rightarrow> Inl e | Inr out \<Rightarrow> Inr (s @ out))"

text \<open>
  The scanner: the third argument is \<open>None\<close> in literal text and \<open>Some name\<close> inside a
  replacement field whose name has been read so far.
\<close>

fun scan :: "string \<Rightarrow> string \<Rightarrow> string option \<Rightarrow> string \<Rightarrow> py_error + string" where
  "scan role transcript None [] = Inr []"
| "scan role transcript (Some name) [] = Inl ValueError"
| "scan role transcript None (c # cs) =
     (if c = CHR ''{'' then
        (case cs of
           [] \<Rightarrow> Inl ValueError
         | d # ds \<Rightarrow>
             if d = CHR ''{'' then emit ''{'' (scan role transcript None ds)
             else scan role transcript (Some []) cs)
      else if c = CHR ''}'' then
        (case cs of
           [] \<Rightarrow> Inl ValueError
         | d # ds \<Rightarrow>
             if d = CHR ''}'' then emit ''}'' (scan role transcript None ds)
             else Inl ValueError)
      else emit [c] (scan role transcript None cs))"
| "scan role transcript (Some name) (c # cs) =
     (if c = CHR ''}'' then
        (case field_value role transcript name of
           Inl e \<Rightarrow> Inl e
         | Inr v \<Rightarrow> emit v (scan role transcript None cs))
      else scan role transcript (Some (name @ [c])) cs)"

definition str_format :: "string \<Rightarrow> string \<Rightarrow> string \<Rightarrow> py_error + string" where
  "str_format template role transcript = scan role transcript None template"

text \<open>
  The generator object: the \<^verbatim>\<open>roles\<close> dictionary and the three base templates.
\<close>

record PromptGenerator =
  roles :: "string \<rightharpoonup> string"
  BASE_OVERVIEW :: string
  BASE_DETAIL_DIALOGUE :: string
  BASE_DETAIL_PRESENTATION :: string

text \<open>
  The first statement of \<^verbatim>\<open>create_prompt\<close>:
  \<^verbatim>\<open>role = self.roles.get(topic, self.roles["general"])\<close>. Python evaluates the
  default before the call, so a dictionary without the key \<^verbatim>\<open>general\<close> raises
  \<^verbatim>\<open>KeyError\<close> whatever the topic is.
\<close>

definition create_prompt_role :: "PromptGenerator \<Rightarrow> string option \<Rightarrow> py_error + string" where
  "create_prompt_role self topic =
     (case roles self ''general'' of
        None \<Rightarrow> Inl (KeyError ''general'')
      | Some dflt \<Rightarrow>
          Inr (case topic of
                 None \<Rightarrow> dflt
               | Some t \<Rightarrow> (case roles self t of None \<Rightarrow> dflt | Some r \<Rightarrow> r)))"

definition create_prompt ::
  "PromptGenerator \<Rightarrow> string option \<Rightarrow> string option \<Rightarrow> string \<Rightarrow> string \<Rightarrow> py_error + string"
where
  "create_prompt self topic format_type transcript prompt_type =
     (case create_prompt_role self topic of
        Inl e \<Rightarrow> Inl e
      | Inr role \<Rightarrow>
          if prompt_type = ''overview''
          then str_format (BASE_OVERVIEW self) role transcript
          else
            let template =
                  (if format_type = Some ''presentation''
                   then BASE_DETAIL_PRESENTATION self
                   else BASE_DETAIL_DIALOGUE self)
            in str_format template role transcript)"

text \<open>
  The object as the reports describe it. The dictionary has the eight keys left after
  the removal of \<^verbatim>\<open>interview\<close> and \<^verbatim>\<open>lecture\<close>; every template opens with the role
  section and closes with the delimiter line, the \<^verbatim>\<open>[TARGET SCRIPT]\<close> header and the
  transcript slot. The Korean role texts and the instruction sections between the two
  slots are parameters: \<open>role_text\<close> gives the text of a key, and each \<open>body\<close> is the
  text from \<^verbatim>\<open>[INPUT]\<close> to the last instruction line.
\<close>

definition role_keys :: "string list" where
  "role_keys =
     [''general'', ''default'', ''tech'', ''business'', ''ai'', ''economy'', ''politics'',
      ''daily'']"

definition base_template :: "string \<Rightarrow> string" where
  "base_template body =
     ''[ROLE]'' @ [nl] @ ''{role}'' @ [nl, nl] @ body @ [nl, nl] @ ''=========='' @ [nl]
       @ ''[TARGET SCRIPT]'' @ [nl] @ ''{transcript}''"

definition PromptGenerator_init ::
  "(string \<Rightarrow> string) \<Rightarrow> string \<Rightarrow> string \<Rightarrow> string \<Rightarrow> PromptGenerator"
where
  "PromptGenerator_init role_text overview_body dialogue_body presentation_body =
     \<lparr> roles = map_of (map (\<lambda>k. (k, role_text k)) role_keys),
       BASE_OVERVIEW = base_template overview_body,
       BASE_DETAIL_DIALOGUE = base_template dialogue_body,
       BASE_DETAIL_PRESENTATION = base_template presentation_body \<rparr>"

definition brace_free :: "string \<Rightarrow> bool" where
  "brace_free s = list_all (\<lambda>c. c \<noteq> CHR ''{'' \<and> c \<noteq> CHR ''}'') s"

text \<open>A small generator with ASCII texts, for evaluating the definitions.\<close>

definition demo_role_text :: "string \<Rightarrow> string" where
  "demo_role_text k = ''editor for '' @ k"

definition demo_generator :: PromptGenerator where
  "demo_generator =
     PromptGenerator_init demo_role_text ''[INPUT]'' ''[INPUT] dialogue''
       ''[INPUT] presentation''"

section \<open>Transcript cache\<close>

text \<open>
  Modelled from the spec: the cache entry of the data model (section 3). The class
  \<^verbatim>\<open>TranscriptCache\<close> of \<^verbatim>\<open>backend/app/core/cache.py\<close> is not among the sources; only
  a report describing it is (a memory cache keyed by the video id, with a lifetime of 24
  hours, whose \<^verbatim>\<open>get\<close> returns \<^verbatim>\<open>None\<close> for an expired entry). Times are in seconds.
\<close>

record TranscriptCacheEntry =
  contentId :: string
  rawText :: string
  createdAt :: nat
  expiresAt :: nat

type_synonym TranscriptCache = "string \<rightharpoonup> TranscriptCacheEntry"

text \<open>Modelled from the spec: the fixed lifetime of an entry, 24 hours.\<close>

definition TTL :: nat where
  "TTL = 24 * 60 * 60"

text \<open>
  Modelled from the spec: \<^verbatim>\<open>put(contentId, rawText)\<close> of section 4.4, the missing
  \<^verbatim>\<open>TranscriptCache.set\<close>. It stores or overwrites the entry, stamping
  \<^verbatim>\<open>createdAt = now\<close> and \<^verbatim>\<open>expiresAt = now + TTL\<close>. The clock reading \<open>now\<close> is an
  argument.
\<close>

definition put :: "TranscriptCache \<Rightarrow> nat \<Rightarrow> string \<Rightarrow> string \<Rightarrow> TranscriptCache" where
  "put cache now cid text =
     cache(cid \<mapsto>
       \<lparr> contentId = cid, rawText = text, createdAt = now, expiresAt = now + TTL \<rparr>)"

text \<open>
  Modelled from the spec: \<^verbatim>\<open>get(contentId)\<close> of section 4.4, the missing
  \<^verbatim>\<open>TranscriptCache.get\<close>. It returns the text only if \<^verbatim>\<open>now <= expiresAt\<close> and
  otherwise behaves as absent; an entry that the read finds expired is evicted, as the
  lifecycle of the entry says. The result is the answer and the cache after the read.
\<close>

definition get :: "TranscriptCache \<Rightarrow> nat \<Rightarrow> string \<Rightarrow> string option \<times> TranscriptCache" where
  "get cache now cid =
     (case cache cid of
        None \<Rightarrow> (None, cache)
      | Some entry \<Rightarrow>
          if now \<le> expiresAt entry then (Some (rawText entry), cache)
          else (None, cache(cid := None)))"

section \<open>Prompt edit endpoint: where the transcript comes from\<close>

text \<open>
  The fragment of the custom summarize handler of \<^verbatim>\<open>backend/app/api/endpoints.py\<close>
  that the cache report quotes. The request carries an optional transcript. A truthy one
  (present and not empty) is used as it is; otherwise the cache is read (with \<open>get\<close>
  above), and a falsy result (nothing cached, or an empty text) raises the HTTP exception
  with status 404 and error code \<^verbatim>\<open>transcript_not_found\<close>. The Korean message and
  suggestion of the exception are left out of the record.
\<close>

record CustomSummarizeRequest =
  req_video_id :: string
  req_transcript :: "string option"

record HTTPException =
  status_code :: nat
  detail_error :: string

definition custom_summarize_transcript ::
  "CustomSummarizeRequest \<Rightarrow> TranscriptCache \<Rightarrow> nat
     \<Rightarrow> (HTTPException + string) \<times> TranscriptCache"
where
  "custom_summarize_transcript request cache now =
     (case req_transcript request of
        Some (c # cs) \<Rightarrow> (Inr (c # cs), cache)
      | _ \<Rightarrow>
          (case get cache now (req_video_id request) of
             (Some (c # cs), cache') \<Rightarrow> (Inr (c # cs), cache')
           | (_, cache') \<Rightarrow>
               (Inl \<lparr> status_code = 404, detail_error = ''transcript_not_found'' \<rparr>,
                cache')))"

section \<open>Frontend services and the chat panel\<close>

text \<open>
  What a JavaScript \<^verbatim>\<open>throw\<close> carries: an \<^verbatim>\<open>Error\<close> with its message, or some other
  value. The Korean default messages of the source are constructors of their own.
\<close>

datatype message =
    Text string
  | DefaultChatError
  | DefaultBatchError
  | DefaultBatchRequestFailed

datatype thrown = Error message | NonError

subsection \<open>translateBatch (frontend/src/services/api.ts)\<close>

text \<open>
  \<^verbatim>\<open>await response.json()\<close> yields the parsed body or rejects with a \<^verbatim>\<open>SyntaxError\<close>
  (an \<^verbatim>\<open>Error\<close>). The bodies are taken at their declared types: an error body gives
  \<^verbatim>\<open>errorData.detail?.message\<close> (absent when the detail or its message is missing), an
  OK body gives its \<^verbatim>\<open>translations\<close> array.
\<close>

datatype 'a json_result = Json 'a | JsonRejected string

datatype fetch_outcome =
    FetchRejected thrown
  | NotOk "string option json_result"
  | Ok "string list json_result"

record TranslateBatchParams =
  batch_video_id :: string
  segments :: "string list"
  batch_ai_provider :: string
  batch_model :: "string option"

text \<open>
  The function posts the parameters and awaits the answer; \<open>fetch\<close> is the backend seen
  from the client. \<open>Inl m\<close> is the rejection with an \<^verbatim>\<open>Error\<close> of message \<open>m\<close>, \<open>Inr\<close>
  the resolved \<^verbatim>\<open>translations\<close>.
\<close>

definition translateBatch ::
  "(TranslateBatchParams \<Rightarrow> fetch_outcome) \<Rightarrow> TranslateBatchParams \<Rightarrow> message + string list"
where
  "translateBatch fetch params =
     (case fetch params of
        FetchRejected (Error m) \<Rightarrow> Inl m
      | FetchRejected NonError \<Rightarrow> Inl DefaultBatchRequestFailed
      | NotOk (JsonRejected s) \<Rightarrow> Inl (Text s)
      | NotOk (Json detail_message) \<Rightarrow>
          Inl (case detail_message of
                 None \<Rightarrow> DefaultBatchError
               | Some m \<Rightarrow> if m = [] then DefaultBatchError else Text m)
      | Ok (JsonRejected s) \<Rightarrow> Inl (Text s)
      | Ok (Json translations) \<Rightarrow> Inr translations)"

subsection \<open>ChatPanel.handleSubmit (frontend/src/components/dashboard/ChatPanel.tsx)\<close>

record Message =
  message_id :: string
  message_role :: string
  message_content :: string

record HistoryEntry =
  entry_role :: string
  entry_content :: string

record ChatPanelProps =
  videoId :: string
  aiProvider :: string
  model :: "string option"

record ChatPanelState =
  messages :: "Message list"
  input :: string
  isLoading :: bool
  conversationHistory :: "HistoryEntry list"

record ChatRequest =
  chat_video_id :: string
  chat_message :: string
  conversation_history :: "HistoryEntry list"
  chat_ai_provider :: string
  chat_model :: "string option"

datatype chat_outcome = Reply string | Thrown thrown

text \<open>
  \<^verbatim>\<open>String.prototype.trim\<close> on the ASCII white space and line terminators (tab, line
  feed, vertical tab, form feed, carriage return, space).
\<close>

definition is_space :: "char \<Rightarrow> bool" where
  "is_space c = List.member [9, 10, 11, 12, 13, 32 :: nat] (of_char c)"

definition trim :: "string \<Rightarrow> string" where
  "trim s = rev (dropWhile is_space (rev (dropWhile is_space s)))"

text \<open>
  The handler, run to its end. \<open>chatWithVideo\<close> is the awaited service call, \<open>now1\<close> and
  \<open>now2\<close> are the two readings of \<^verbatim>\<open>Date.now()\<close>. The result is the request that was sent
  (none when the guard returns early), the error toast (if any) and the component state
  after all state updates. The values the closure captured (\<open>input\<close>,
  \<open>conversationHistory\<close>) are those of the state the handler started from.
\<close>

definition handleSubmit ::
  "ChatPanelProps \<Rightarrow> (ChatRequest \<Rightarrow> chat_outcome) \<Rightarrow> nat \<Rightarrow> nat \<Rightarrow> ChatPanelState
     \<Rightarrow> ChatRequest option \<times> message option \<times> ChatPanelState"
where
  "handleSubmit props chatWithVideo now1 now2 st =
     (if trim (input st) = [] \<or> isLoading st then (None, None, st)
      else
        let userMessage =
              \<lparr> message_id = toString now1, message_role = ''user'',
                message_content = input st \<rparr>;
            messages1 = messages st @ [userMessage];
            newHistory =
              conversationHistory st @ [\<lparr> entry_role = ''user'', entry_content = input st \<rparr>];
            request =
              \<lparr> chat_video_id = videoId props, chat_message = input st,
                conversation_history = conversationHistory st,
                chat_ai_provider = aiProvider props, chat_model = model props \<rparr>
        in case chatWithVideo request of
             Reply reply \<Rightarrow>
               let assistantMessage =
                     \<lparr> message_id = toString (now2 + 1), message_role = ''assistant'',
                       message_content = reply \<rparr>
               in (Some request, None,
                   \<lparr> messages = messages1 @ [assistantMessage], input = [],
                     isLoading = False,
                     conversationHistory =
                       newHistory @ [\<lparr> entry_role = ''assistant'', entry_content = reply \<rparr>] \<rparr>)
           | Thrown err \<Rightarrow>
               (Some request,
                Some (case err of Error m \<Rightarrow> m | NonError \<Rightarrow> DefaultChatError),
                \<lparr> messages = messages1, input = [], isLoading = False,
                  conversationHistory = newHistory \<rparr>))"

text \<open>A state and properties of the panel, for evaluating the handler.\<close>

definition demo_state :: ChatPanelState where
  "demo_state =
     \<lparr> messages = [], input = ''What is it about?'', isLoading = False,
       conversationHistory =
         [\<lparr> entry_role = ''user'', entry_content = ''Hi'' \<rparr>,
          \<lparr> entry_role = ''assistant'', entry_content = ''Hello'' \<rparr>] \<rparr>"

definition demo_props :: ChatPanelProps where
  "demo_props = \<lparr> videoId = ''vid'', aiProvider = ''gemini'', model = None \<rparr>"

section \<open>Proofs\<close>

subsection \<open>Decimal numerals and the timestamp round trip\<close>

text \<open>The examples of the source's documentation comments, and three malformed inputs.\<close>

lemma secondsToTimestamp_examples:
  "secondsToTimestamp 5 = ''0:05'' \<and> secondsToTimestamp 83 = ''1:23'' \<and>
   secondsToTimestamp 645 = ''10:45''"
  by code_simp

lemma timestampToSeconds_examples:
  "timestampToSeconds ''0:05'' = Some 5 \<and> timestampToSeconds ''1:23'' = Some 83 \<and>
   timestampToSeconds ''10:45'' = Some 645 \<and> timestampToSeconds ''1:2'' = Some 0 \<and>
   timestampToSeconds ''1:234'' = Some 0 \<and> timestampToSeconds ''abc'' = Some 0"
  by code_simp
















subsection \<open>Formatting a template\<close>

text \<open>The format scanner on a few strings: substitution, escapes and the errors.\<close>

lemma str_format_examples:
  "str_format ''a{role}b{{x}}{transcript}'' ''R'' ''T{role}'' = Inr ''aRb{x}T{role}'' \<and>
   str_format ''a{role}b{x}'' ''R'' ''T'' = Inl (KeyError ''x'') \<and>
   str_format ''a}'' ''R'' ''T'' = Inl ValueError \<and>
   str_format ''a{role'' ''R'' ''T'' = Inl ValueError \<and>
   str_format ''{}'' ''R'' ''T'' = Inl IndexError"
  by code_simp


lemma emit_Inr: "emit a (Inr out) = Inr (a @ out)"
  by (simp add: emit_def)





lemma brace_free_append: "brace_free (a @ b) \<longleftrightarrow> brace_free a \<and> brace_free b"
  by (simp add: brace_free_def)





subsection \<open>Role lookup and template selection\<close>

lemma roles_init_lookup:
  "roles (PromptGenerator_init role_text ob db pb) t =
     (if t \<in> set role_keys then Some (role_text t) else None)"
  by (simp add: PromptGenerator_init_def map_of_map_restrict restrict_map_def)

lemma general_in_role_keys: "''general'' \<in> set role_keys"
  by (simp add: role_keys_def)

lemma create_prompt_role_init:
  "create_prompt_role (PromptGenerator_init role_text ob db pb) topic =
     Inr (case topic of
            None \<Rightarrow> role_text ''general''
          | Some t \<Rightarrow> if t \<in> set role_keys then role_text t else role_text ''general'')"
  by (simp add: create_prompt_role_def roles_init_lookup general_in_role_keys
      split: option.splits)

text \<open>
  Claim C7. The role lookup is a function of the dictionary and the topic alone. On the
  generator as it is built it never raises: a registered topic gives its role text, an
  unknown or absent topic gives the role text of \<^verbatim>\<open>general\<close>, the designated default.
\<close>

theorem role_lookup_total:
  "create_prompt_role (PromptGenerator_init role_text ob db pb) topic =
     Inr (case topic of
            None \<Rightarrow> role_text ''general''
          | Some t \<Rightarrow> if t \<in> set role_keys then role_text t else role_text ''general'')"
  by (rule create_prompt_role_init)

text \<open>An unknown topic on the small generator falls back to the role of \<^verbatim>\<open>general\<close>.\<close>

theorem role_lookup_total_witness:
  "create_prompt_role demo_generator (Some ''lecture'') = Inr ''editor for general''"
  unfolding demo_generator_def
  using role_lookup_total [of demo_role_text "''[INPUT]''" "''[INPUT] dialogue''"
      "''[INPUT] presentation''" "Some ''lecture''"]
  by (simp add: role_keys_def demo_role_text_def)

text \<open>
  Claim C1. With the role found, the prompt of kind \<^verbatim>\<open>overview\<close> is the overview
  template formatted, whatever the format type; a prompt of any other kind (the detail
  prompt) is the presentation template formatted when the format type is
  \<^verbatim>\<open>presentation\<close>, and the dialogue template formatted for every other format type,
  absent and unknown ones included.
\<close>

theorem template_selection:
  assumes "create_prompt_role self topic = Inr role"
  shows "create_prompt self topic format_type transcript ''overview'' =
           str_format (BASE_OVERVIEW self) role transcript \<and>
         (prompt_type \<noteq> ''overview'' \<longrightarrow>
            create_prompt self topic (Some ''presentation'') transcript prompt_type =
              str_format (BASE_DETAIL_PRESENTATION self) role transcript) \<and>
         (prompt_type \<noteq> ''overview'' \<longrightarrow> format_type \<noteq> Some ''presentation'' \<longrightarrow>
            create_prompt self topic format_type transcript prompt_type =
              str_format (BASE_DETAIL_DIALOGUE self) role transcript)"
  using assms by (simp add: create_prompt_def)

text \<open>The three selections on the small generator, with an absent format type.\<close>

theorem template_selection_witness:
  "create_prompt_role demo_generator (Some ''ai'') = Inr ''editor for ai'' \<and>
   create_prompt demo_generator (Some ''ai'') None ''hello'' ''overview'' =
     str_format (BASE_OVERVIEW demo_generator) ''editor for ai'' ''hello'' \<and>
   ''detail'' \<noteq> ''overview'' \<and>
   create_prompt demo_generator (Some ''ai'') (Some ''presentation'') ''hello'' ''detail'' =
     str_format (BASE_DETAIL_PRESENTATION demo_generator) ''editor for ai'' ''hello'' \<and>
   (None :: string option) \<noteq> Some ''presentation'' \<and>
   create_prompt demo_generator (Some ''ai'') None ''hello'' ''detail'' =
     str_format (BASE_DETAIL_DIALOGUE demo_generator) ''editor for ai'' ''hello''"
proof -
  have h: "create_prompt_role demo_generator (Some ''ai'') = Inr ''editor for ai''"
    by (simp add: demo_generator_def create_prompt_role_def roles_init_lookup role_keys_def
        demo_role_text_def)
  show ?thesis
    using h template_selection [OF h, of None "''hello''" "''detail''"] by simp
qed

subsection \<open>Placeholders in the composed prompt\<close>






subsection \<open>Transcript cache\<close>

text \<open>
  Claim C3. A read at the time of the write, and at any time up to the expiry, returns
  the text that was put; the stored entry is created at the time of the write and expires
  \<open>TTL\<close> later, \<open>TTL\<close> being 24 hours; a read after the expiry of an entry returns
  nothing, whatever else happened to the cache before.
\<close>

theorem cache_put_get_ttl:
  "fst (get (put cache now cid text) now cid) = Some text \<and>
   (t \<le> now + TTL \<longrightarrow> fst (get (put cache now cid text) t cid) = Some text) \<and>
   put cache now cid text cid =
     Some \<lparr> contentId = cid, rawText = text, createdAt = now, expiresAt = now + TTL \<rparr> \<and>
   TTL = 24 * 60 * 60 \<and>
   (now + TTL < t \<longrightarrow> fst (get (put cache now cid text) t cid) = None) \<and>
   (cache cid = Some entry \<longrightarrow> expiresAt entry < t \<longrightarrow> fst (get cache t cid) = None)"
  by (simp add: get_def put_def TTL_def)

text \<open>A read one minute after the write, one after the expiry, and one of an old entry.\<close>

theorem cache_put_get_ttl_witness:
  "(160 :: nat) \<le> 100 + TTL \<and>
   fst (get (put Map.empty 100 ''vid'' ''0:05 hello'') 160 ''vid'') = Some ''0:05 hello'' \<and>
   100 + TTL < (86501 :: nat) \<and>
   fst (get (put Map.empty 100 ''vid'' ''0:05 hello'') 86501 ''vid'') = None \<and>
   [''old'' \<mapsto> \<lparr> contentId = ''old'', rawText = ''text'', createdAt = 0, expiresAt = 10 \<rparr>]
     ''old'' =
     Some \<lparr> contentId = ''old'', rawText = ''text'', createdAt = 0, expiresAt = 10 \<rparr> \<and>
   expiresAt \<lparr> contentId = ''old'', rawText = ''text'', createdAt = 0, expiresAt = 10 \<rparr>
     < (11 :: nat) \<and>
   fst (get [''old'' \<mapsto> \<lparr> contentId = ''old'', rawText = ''text'', createdAt = 0,
                          expiresAt = 10 \<rparr>] 11 ''old'') = None"
proof -
  have a: "(160 :: nat) \<le> 100 + TTL" and b: "100 + TTL < (86501 :: nat)"
    by (simp_all add: TTL_def)
  have c: "[''old'' \<mapsto> \<lparr> contentId = ''old'', rawText = ''text'', createdAt = 0,
      expiresAt = 10 \<rparr>] ''old'' =
      Some \<lparr> contentId = ''old'', rawText = ''text'', createdAt = 0, expiresAt = 10 \<rparr>"
    by simp
  have d: "expiresAt \<lparr> contentId = ''old'', rawText = ''text'', createdAt = 0,
      expiresAt = 10 \<rparr> < (11 :: nat)"
    by simp
  from a cache_put_get_ttl [of Map.empty 100 "''vid''" "''0:05 hello''" 160]
  have e: "fst (get (put Map.empty 100 ''vid'' ''0:05 hello'') 160 ''vid'') = Some ''0:05 hello''"
    by blast
  from b cache_put_get_ttl [of Map.empty 100 "''vid''" "''0:05 hello''" 86501]
  have f: "fst (get (put Map.empty 100 ''vid'' ''0:05 hello'') 86501 ''vid'') = None"
    by blast
  from c d cache_put_get_ttl [of
      "[''old'' \<mapsto> \<lparr> contentId = ''old'', rawText = ''text'', createdAt = 0,
          expiresAt = 10 \<rparr>]" 0 "''old''" "''text''" 11
      "\<lparr> contentId = ''old'', rawText = ''text'', createdAt = 0, expiresAt = 10 \<rparr>"]
  have g: "fst (get [''old'' \<mapsto> \<lparr> contentId = ''old'', rawText = ''text'', createdAt = 0,
      expiresAt = 10 \<rparr>] 11 ''old'') = None"
    by blast
  from a b c d e f g show ?thesis by blast
qed

text \<open>
  Claim C8. After two writes under the same content id a read (before the second entry
  expires) returns the text of the second write.
\<close>

theorem cache_last_put_wins:
  "t \<le> now2 + TTL \<Longrightarrow>
     fst (get (put (put cache now1 cid x) now2 cid y) t cid) = Some y"
  by (simp add: get_def put_def)

theorem cache_last_put_wins_witness:
  "(7 :: nat) \<le> 7 + TTL \<and>
   fst (get (put (put Map.empty 5 ''vid'' ''X'') 7 ''vid'' ''Y'') 7 ''vid'') = Some ''Y''"
proof -
  have h: "(7 :: nat) \<le> 7 + TTL" by simp
  show ?thesis
    using h cache_last_put_wins [OF h, of Map.empty 5 "''vid''" "''X''" "''Y''"] by simp
qed

subsection \<open>Prompt edit without a cached transcript\<close>

text \<open>
  Claim C4, amended. A request that carries no transcript (absent or empty), for a video
  whose transcript the cache does not return (or returns empty), fails with status 404
  and the error code \<^verbatim>\<open>transcript_not_found\<close>, and no request ever goes on with an
  empty transcript; a request that carries a transcript uses it and leaves the cache
  alone. The cache returns nothing for a video that was never stored and for an entry
  that has expired.
\<close>

theorem resummarize_transcript_not_found:
  "(req_transcript request = None \<or> req_transcript request = Some [] \<longrightarrow>
      fst (get cache now (req_video_id request)) = None \<or>
      fst (get cache now (req_video_id request)) = Some [] \<longrightarrow>
      fst (custom_summarize_transcript request cache now) =
        Inl \<lparr> status_code = 404, detail_error = ''transcript_not_found'' \<rparr>) \<and>
   fst (custom_summarize_transcript request cache now) \<noteq> Inr [] \<and>
   (req_transcript request = Some text \<longrightarrow> text \<noteq> [] \<longrightarrow>
      custom_summarize_transcript request cache now = (Inr text, cache)) \<and>
   (cache (req_video_id request) = None \<longrightarrow>
      fst (get cache now (req_video_id request)) = None) \<and>
   (cache (req_video_id request) = Some entry \<longrightarrow> expiresAt entry < now \<longrightarrow>
      fst (get cache now (req_video_id request)) = None)"
  by (auto simp: custom_summarize_transcript_def get_def split: option.splits list.splits prod.splits)

theorem resummarize_transcript_not_found_witness:
  "req_transcript \<lparr> req_video_id = ''vid'', req_transcript = None \<rparr> = None \<and>
   fst (get Map.empty 5 (req_video_id \<lparr> req_video_id = ''vid'', req_transcript = None \<rparr>))
     = None \<and>
   fst (custom_summarize_transcript \<lparr> req_video_id = ''vid'', req_transcript = None \<rparr>
          Map.empty 5) =
     Inl \<lparr> status_code = 404, detail_error = ''transcript_not_found'' \<rparr> \<and>
   req_transcript \<lparr> req_video_id = ''vid'', req_transcript = Some ''0:05 hello'' \<rparr> =
     Some ''0:05 hello'' \<and>
   ''0:05 hello'' \<noteq> [] \<and>
   custom_summarize_transcript \<lparr> req_video_id = ''vid'', req_transcript = Some ''0:05 hello'' \<rparr>
     Map.empty 5 = (Inr ''0:05 hello'', Map.empty)"
proof -
  have a: "req_transcript \<lparr> req_video_id = ''vid'', req_transcript = None \<rparr> = None"
    by simp
  have b: "fst (get Map.empty 5
      (req_video_id \<lparr> req_video_id = ''vid'', req_transcript = None \<rparr>)) = None"
    by (simp add: get_def)
  from a b resummarize_transcript_not_found
    [of "\<lparr> req_video_id = ''vid'', req_transcript = None \<rparr>" Map.empty 5]
  have c: "fst (custom_summarize_transcript \<lparr> req_video_id = ''vid'', req_transcript = None \<rparr>
          Map.empty 5) =
     Inl \<lparr> status_code = 404, detail_error = ''transcript_not_found'' \<rparr>"
    by blast
  have d: "req_transcript \<lparr> req_video_id = ''vid'', req_transcript = Some ''0:05 hello'' \<rparr> =
     Some ''0:05 hello''"
    by simp
  have e: "''0:05 hello'' \<noteq> []"
    by simp
  from d e resummarize_transcript_not_found
    [of "\<lparr> req_video_id = ''vid'', req_transcript = Some ''0:05 hello'' \<rparr>" Map.empty 5
      "''0:05 hello''"]
  have f: "custom_summarize_transcript
     \<lparr> req_video_id = ''vid'', req_transcript = Some ''0:05 hello'' \<rparr> Map.empty 5 =
     (Inr ''0:05 hello'', Map.empty)"
    by blast
  from a b c d e f show ?thesis by blast
qed

text \<open>
  Claim C4 as stated fails: with nothing cached for the video, a request that carries
  its own transcript does not fail.
\<close>

theorem resummarize_with_transcript_counterexample:
  "fst (get Map.empty 0 ''vid'') = None \<and>
   fst (custom_summarize_transcript
          \<lparr> req_video_id = ''vid'', req_transcript = Some ''0:05 hello'' \<rparr> Map.empty 0) =
     Inr ''0:05 hello''"
  by (simp add: custom_summarize_transcript_def get_def)

subsection \<open>Batch translation\<close>

text \<open>
  Claim C5, amended. The call succeeds exactly when the backend answers OK with a JSON
  body, and then it returns the translations of that body unchanged, in their order;
  it does not compare their number with the number of segments. Every other answer makes
  the call fail.
\<close>

theorem translateBatch_passes_response:
  "translateBatch fetch params = Inr ts \<longleftrightarrow> fetch params = Ok (Json ts)"
  by (simp add: translateBatch_def split: fetch_outcome.splits thrown.splits json_result.splits)

text \<open>
  Claim C5 as stated fails: an OK answer with one translation for two segments is
  returned as a success of length one.
\<close>

theorem translateBatch_count_counterexample:
  "translateBatch (\<lambda>p. Ok (Json [''annyeonghaseyo'']))
     \<lparr> batch_video_id = ''vid'', segments = [''Hello'', ''World''],
       batch_ai_provider = ''gemini'', batch_model = None \<rparr> = Inr [''annyeonghaseyo''] \<and>
   length [''annyeonghaseyo''] \<noteq> length [''Hello'', ''World'']"
  by (simp add: translateBatch_def)

subsection \<open>Chat history\<close>

text \<open>
  Claim C9. A submission that passes the guard sends the history as it was before the
  submission, without the new user message, which travels in the message field; after
  a reply the stored history is the prior history followed by the user turn and the
  assistant turn, in this order.
\<close>

theorem chat_history_sent_and_stored:
  assumes "trim (input st) \<noteq> []" and "\<not> isLoading st"
  shows "\<exists>request.
           fst (handleSubmit props chatWithVideo now1 now2 st) = Some request \<and>
           conversation_history request = conversationHistory st \<and>
           chat_message request = input st \<and>
           (\<forall>reply. chatWithVideo request = Reply reply \<longrightarrow>
              conversationHistory (snd (snd (handleSubmit props chatWithVideo now1 now2 st))) =
                conversationHistory st
                  @ [\<lparr> entry_role = ''user'', entry_content = input st \<rparr>,
                     \<lparr> entry_role = ''assistant'', entry_content = reply \<rparr>])"
  using assms
  by (auto simp: handleSubmit_def Let_def split: chat_outcome.splits)

theorem chat_history_sent_and_stored_witness:
  "trim (input demo_state) \<noteq> [] \<and> \<not> isLoading demo_state \<and>
   map_option conversation_history
     (fst (handleSubmit demo_props (\<lambda>r. Reply ''A talk'') 1 2 demo_state)) =
     Some [\<lparr> entry_role = ''user'', entry_content = ''Hi'' \<rparr>,
           \<lparr> entry_role = ''assistant'', entry_content = ''Hello'' \<rparr>] \<and>
   conversationHistory (snd (snd (handleSubmit demo_props (\<lambda>r. Reply ''A talk'') 1 2
       demo_state))) =
     [\<lparr> entry_role = ''user'', entry_content = ''Hi'' \<rparr>,
      \<lparr> entry_role = ''assistant'', entry_content = ''Hello'' \<rparr>,
      \<lparr> entry_role = ''user'', entry_content = ''What is it about?'' \<rparr>,
      \<lparr> entry_role = ''assistant'', entry_content = ''A talk'' \<rparr>]"
proof -
  have a: "trim (input demo_state) \<noteq> []"
    by (simp add: demo_state_def trim_def is_space_def)
  have b: "\<not> isLoading demo_state"
    by (simp add: demo_state_def)
  from chat_history_sent_and_stored [OF a b, of demo_props "\<lambda>r. Reply ''A talk''" 1 2]
  obtain request where
    r: "fst (handleSubmit demo_props (\<lambda>r. Reply ''A talk'') 1 2 demo_state) = Some request"
      "conversation_history request = conversationHistory demo_state"
      "conversationHistory (snd (snd (handleSubmit demo_props (\<lambda>r. Reply ''A talk'') 1 2
         demo_state))) =
       conversationHistory demo_state
         @ [\<lparr> entry_role = ''user'', entry_content = input demo_state \<rparr>,
            \<lparr> entry_role = ''assistant'', entry_content = ''A talk'' \<rparr>]"
    by blast
  from r a b show ?thesis
    by (simp add: demo_state_def)
qed

end
